theory Spec2Isabelle
  imports Main "HOL-Library.Word" "HOL-Library.DAList" "HOL-Library.Sublist"
begin

section \<open>Request forwarding between cluster nodes\<close>

text \<open>
  A shallow embedding of the request-forwarding layer: the TLS lookup callbacks
  (\<open>ClientLookup\<close>, \<open>ServerLookup\<close>), the forwarding handler's \<open>Stop\<close>, the connection
  management of the core (\<open>refreshRequestForwardingConnection\<close>,
  \<open>clearForwardingClients\<close>) and the forwarding entry point \<open>ForwardRequest\<close>.

  Go values are modelled as follows. A pointer that the code tests against \<open>nil\<close>, or that
  is part of the core's state, is an \<open>option\<close>. A pair \<open>(value, error)\<close> returned by a Go
  function is a pair of options, so that every combination the code can see is a value of
  the model. A panic (failed type assertion, nil dereference, closing a closed channel) is
  the outcome \<open>Panic\<close>. Everything a function does to the outside (logger, lock, listener
  registry, transport, metrics) is appended, in program order, to a list of events carried
  by the state.
\<close>

subsection \<open>Basic values\<close>

type_synonym bytes = "8 word list"

text \<open>Go errors: the sentinel \<open>ErrCannotForward\<close>, and errors made by \<open>errors.New\<close>,
  \<open>fmt.Errorf\<close> or a library, identified by their message.\<close>

datatype error = ErrCannotForward | Error string

datatype 'a outcome = Panic | Return 'a

subsection \<open>Cluster identity and TLS certificates\<close>

record x509_Certificate =
  RawIssuer :: bytes
  SubjectCommonName :: string

datatype ecdsa_PrivateKey = ECDSAKey nat

record tls_Certificate =
  Certificate :: "bytes list"
  PrivateKey :: "ecdsa_PrivateKey option"
  Leaf :: "x509_Certificate option"

record tls_CertificateRequestInfo =
  AcceptableCAs :: "bytes list"

record tls_ClientHelloInfo =
  ServerName :: string

subsection \<open>HTTP requests and the wire records\<close>

record url_URL =
  Scheme :: string
  Host :: string
  Path :: string
  RawQuery :: string

text \<open>A value stored in a request context has a dynamic type: a string, or something else.\<close>

datatype ctx_value = StringValue string | OtherValue nat

text \<open>The context of a request is the chain of its key/value pairs, innermost first;
  \<open>Value\<close> finds the innermost pair of a key, and \<open>nil\<close> when there is none.\<close>

record http_Request =
  Method :: string
  URL :: url_URL
  Header :: "(string \<times> string list) list"
  Body :: bytes
  RemoteAddr :: string
  Context :: "(string \<times> ctx_value) list"

definition Value :: "(string \<times> ctx_value) list \<Rightarrow> string \<Rightarrow> ctx_value option" where
  "Value ctx key = map_of ctx key"

text \<open>Modelled from the spec: the wire records \<open>forwarding.Request\<close> and
  \<open>forwarding.Response\<close> are generated code outside these sources. The spec gives them as
  Request{method, path, headers, body} and Response{statusCode: int32, headers:
  map<string, list<string>>, body: bytes}, each header entry carrying an ordered list of
  values. A Go map has distinct keys and no order of its own: it is a distinct association
  list, whose list order stands for the order in which \<open>range\<close> visits the entries. A nil
  map and a nil byte slice are \<open>None\<close>.\<close>

record forwarding_Request =
  fr_Method :: string
  fr_Path :: string
  fr_HeaderEntries :: "(string \<times> string list) list"
  fr_Body :: bytes

record HeaderEntry =
  Values :: "string list"

record forwarding_Response =
  StatusCode :: "32 word"
  HeaderEntries :: "(string, HeaderEntry) alist option"
  resp_Body :: "bytes option"

type_synonym http_Header = "(string, string list) alist"

subsection \<open>Events\<close>

datatype ClientConn = ClientConn nat

datatype go_context = Background nat | WithCancel go_context

datatype CancelFunc = CancelFunc go_context

datatype event =
    LogDebug string
  | LogError string
  | Lock
  | Unlock
  | RLock
  | RUnlock
  | CancelCalled CancelFunc
  | ConnClosed ClientConn
  | ClientRemoved string
  | ClientAdded string
  | Dialed string "error + ClientConn"
  | HeartbeatStarted ClientConn
  | MeasureSince
  | IncrCounter
  | Serialized http_Request
  | RPCSent "(string \<times> ctx_value) list" forwarding_Request
  | Slept nat
  | StopChClosed
  | ServerStopped

subsection \<open>The cluster listener, the forwarding client and the core\<close>

text \<open>Modelled from the spec: the cluster listener is declared outside these sources. Of
  its interface (\<open>addClient(tag, identityProvider)\<close>, \<open>removeClient(tag)\<close>) the model keeps
  the registry of client-identity providers by protocol tag.\<close>

datatype ClusterClient = requestForwardingClusterClient

record ClusterListener =
  clients :: "string \<rightharpoonup> ClusterClient"

definition AddClient :: "string \<Rightarrow> ClusterClient \<Rightarrow> ClusterListener \<Rightarrow> ClusterListener" where
  "AddClient alpn cl l = l\<lparr>clients := (clients l)(alpn \<mapsto> cl)\<rparr>"

definition RemoveClient :: "string \<Rightarrow> ClusterListener \<Rightarrow> ClusterListener" where
  "RemoveClient alpn l = l\<lparr>clients := (clients l)(alpn := None)\<rparr>"

record forwardingClient =
  RequestForwardingClient :: ClientConn
  echoTicker :: nat
  echoContext :: go_context

datatype ClusterLeaderParams = ClusterLeaderParams string

text \<open>Modelled from the spec: the declaration of \<open>Core\<close> is outside these sources. The
  fields are those that the functions below read and write. The three identity cells are
  atomically swapped holders that always contain a value of the type the code asserts,
  possibly nil (the spec's "ClusterIdentity-or-absent"); \<open>len(currCert) == 0\<close> is the only
  test on the certificate bytes, so a nil and an empty slice are both \<open>[]\<close>.\<close>

record Core =
  localClusterCert :: bytes
  localClusterParsedCert :: "x509_Certificate option"
  localClusterPrivateKey :: "ecdsa_PrivateKey option"
  clusterListener :: "ClusterListener option"
  clusterHeartbeatInterval :: nat
  clusterLeaderParams :: "ClusterLeaderParams option"
  rpcClientConn :: "ClientConn option"
  rpcClientConnContext :: "go_context option"
  rpcClientConnCancelFunc :: "CancelFunc option"
  rpcForwardingClient :: "forwardingClient option"
  events :: "event list"

definition emit :: "event \<Rightarrow> Core \<Rightarrow> Core" where
  "emit e c = c\<lparr>events := events c @ [e]\<rparr>"

text \<open>What the functions use from outside the file: constants of other packages, the
  standard library's URL parser, the RPC library's dial, the request serializer of
  \<open>helper/forwarding\<close> and the RPC stub. \<open>grpc.DialContext\<close> returns a nil connection with
  every error, so its result is a sum. The dial is made without \<open>grpc.WithBlock\<close>: it
  returns a connection without waiting for the peer, so a leader that is down or refuses
  the connection is not an error of the dial; the dial returns an error when it cannot
  build the client, as for a target that it cannot parse. The serializer and the stub
  return a pair.\<close>

record externals =
  RequestForwardingALPN :: string
  ListenerAcceptDeadline :: nat
  url_Parse :: "string \<Rightarrow> error + url_URL"
  grpc_DialContext :: "go_context \<Rightarrow> string \<Rightarrow> error + ClientConn"
  GenerateForwardedRequest :: "http_Request \<Rightarrow> forwarding_Request option \<times> error option"
  rpc_ForwardRequest ::
    "forwardingClient \<Rightarrow> (string \<times> ctx_value) list \<Rightarrow> forwarding_Request
      \<Rightarrow> forwarding_Response option \<times> error option"

subsection \<open>The TLS lookup callbacks\<close>

text \<open>The receivers of \<open>ClientLookup\<close> and \<open>ServerLookup\<close> are read only through
  their \<open>core\<close> field, so the callbacks take the core.\<close>

text \<open>The loop of \<open>ClientLookup\<close> over the acceptable CA subjects: the first subject
  equal to the raw issuer of the parsed certificate ends it with the local certificate.\<close>

fun ClientLookup_range ::
  "Core \<Rightarrow> x509_Certificate \<Rightarrow> bytes \<Rightarrow> bytes list \<Rightarrow> tls_Certificate option \<times> error option"
where
  "ClientLookup_range c parsedCert localCert [] = (None, None)"
| "ClientLookup_range c parsedCert localCert (subj # rest) =
     (if subj = RawIssuer parsedCert
      then (Some \<lparr>Certificate = [localCert],
                  PrivateKey = localClusterPrivateKey c,
                  Leaf = localClusterParsedCert c\<rparr>, None)
      else ClientLookup_range c parsedCert localCert rest)"

definition ClientLookup ::
  "Core \<Rightarrow> tls_CertificateRequestInfo \<Rightarrow> tls_Certificate option \<times> error option"
where
  "ClientLookup c requestInfo =
     (case localClusterParsedCert c of
        None \<Rightarrow> (None, None)
      | Some parsedCert \<Rightarrow>
          let currCert = localClusterCert c in
          if length currCert = 0 then (None, None)
          else
            let localCert = currCert in
            ClientLookup_range c parsedCert localCert (AcceptableCAs requestInfo))"

definition ServerLookup ::
  "Core \<Rightarrow> tls_ClientHelloInfo \<Rightarrow> tls_Certificate option \<times> error option"
where
  "ServerLookup c clientHello =
     (let currCert = localClusterCert c in
      if length currCert = 0
      then (None, Some (Error ''got forwarding connection but no local cert''))
      else
        let localCert = currCert in
        (Some \<lparr>Certificate = [localCert],
               PrivateKey = localClusterPrivateKey c,
               Leaf = localClusterParsedCert c\<rparr>, None))"

subsection \<open>The forwarding handler's Stop\<close>

text \<open>Of the handler, \<open>Stop\<close> touches the stop channel and the RPC server. Closing a
  channel that is already closed panics; stopping the RPC server twice does not.\<close>

record requestForwardingHandler =
  ha :: bool
  stopCh_closed :: bool
  fwRPCServer_stopped :: bool
  handler_events :: "event list"

definition Stop ::
  "externals \<Rightarrow> requestForwardingHandler \<Rightarrow> error option outcome \<times> requestForwardingHandler"
where
  "Stop ext rf =
     (let rf1 = rf\<lparr>handler_events := handler_events rf @ [Slept (ListenerAcceptDeadline ext)]\<rparr>
      in if stopCh_closed rf1 then (Panic, rf1)
         else
           let rf2 = rf1\<lparr>stopCh_closed := True,
                         handler_events := handler_events rf1 @ [StopChClosed]\<rparr>;
               rf3 = rf2\<lparr>fwRPCServer_stopped := True,
                         handler_events := handler_events rf2 @ [ServerStopped]\<rparr>
           in (Return None, rf3))"

subsection \<open>Connection management\<close>

definition clearForwardingClients :: "externals \<Rightarrow> Core \<Rightarrow> Core" where
  "clearForwardingClients ext c =
     (let c1 = emit (LogDebug ''clearing forwarding clients'') c;
          c2 = (case rpcClientConnCancelFunc c1 of
                  None \<Rightarrow> c1
                | Some cancel \<Rightarrow> (emit (CancelCalled cancel) c1)\<lparr>rpcClientConnCancelFunc := None\<rparr>);
          c3 = (case rpcClientConn c2 of
                  None \<Rightarrow> c2
                | Some conn \<Rightarrow> (emit (ConnClosed conn) c2)\<lparr>rpcClientConn := None\<rparr>);
          c4 = c3\<lparr>rpcClientConnContext := None, rpcForwardingClient := None\<rparr>;
          c5 = (case clusterListener c4 of
                  None \<Rightarrow> c4
                | Some l \<Rightarrow>
                    (emit (ClientRemoved (RequestForwardingALPN ext)) c4)
                      \<lparr>clusterListener := Some (RemoveClient (RequestForwardingALPN ext) l)\<rparr>);
          c6 = c5\<lparr>clusterLeaderParams := None\<rparr>
      in emit (LogDebug ''done clearing forwarding clients'') c6)"

text \<open>The two deferred calls of \<open>refreshRequestForwardingConnection\<close> run when it
  returns, last registered first: the unlock, then the closing debug line.\<close>

definition refreshRequestForwardingConnection ::
  "externals \<Rightarrow> Core \<Rightarrow> go_context \<Rightarrow> string \<Rightarrow> error option \<times> Core"
where
  "refreshRequestForwardingConnection ext c ctx clusterAddr =
     (let c1 = emit (LogDebug ''refreshing forwarding connection'') c;
          c2 = emit Lock c1;
          c3 = clearForwardingClients ext c2;
          (err, c4) =
            (if clusterAddr = [] then (None, c3)
             else
               case url_Parse ext clusterAddr of
                 Inl err \<Rightarrow>
                   (Some err,
                    emit (LogError ''error parsing cluster address attempting to refresh forwarding connection'') c3)
               | Inr clusterURL \<Rightarrow>
                   (case localClusterParsedCert c3 of
                      None \<Rightarrow>
                        (Some (Error ''no request forwarding cluster certificate found''),
                         emit (LogError ''no request forwarding cluster certificate found'') c3)
                    | Some parsedCert \<Rightarrow>
                        (case clusterListener c3 of
                           None \<Rightarrow> (None, emit (LogError ''no cluster listener configured'') c3)
                         | Some l \<Rightarrow>
                             let c5 = (emit (ClientAdded (RequestForwardingALPN ext)) c3)
                                        \<lparr>clusterListener :=
                                           Some (AddClient (RequestForwardingALPN ext)
                                                   requestForwardingClusterClient l)\<rparr>;
                                 dctx = WithCancel ctx;
                                 cancelFunc = CancelFunc dctx;
                                 dialed = grpc_DialContext ext dctx (Host clusterURL);
                                 c6 = emit (Dialed (Host clusterURL) dialed) c5
                             in
                               (case dialed of
                                  Inl err \<Rightarrow>
                                    (Some err,
                                     emit (LogError ''err setting up forwarding rpc client'')
                                       (emit (CancelCalled cancelFunc) (c6\<lparr>rpcClientConn := None\<rparr>)))
                                | Inr conn \<Rightarrow>
                                    let c7 = c6\<lparr>rpcClientConn := Some conn,
                                                rpcClientConnContext := Some dctx,
                                                rpcClientConnCancelFunc := Some cancelFunc,
                                                rpcForwardingClient :=
                                                  Some \<lparr>RequestForwardingClient = conn,
                                                        echoTicker = clusterHeartbeatInterval c6,
                                                        echoContext = dctx\<rparr>\<rparr>
                                    in (None, emit (HeartbeatStarted conn) c7)))))
      in (err, emit (LogDebug ''done refreshing forwarding connection'') (emit Unlock c4)))"

text \<open>The state that \<open>refreshRequestForwardingConnection\<close> has reached when
  \<open>clearForwardingClients\<close> returns: the point between tearing down and setting up.\<close>

definition refresh_after_clear :: "externals \<Rightarrow> Core \<Rightarrow> Core" where
  "refresh_after_clear ext c =
     clearForwardingClients ext (emit Lock (emit (LogDebug ''refreshing forwarding connection'') c))"

text \<open>No forwarding connection state: the four fields are nil and the listener, when
  there is one, has no client registered under the forwarding tag.\<close>

definition cleared :: "externals \<Rightarrow> Core \<Rightarrow> bool" where
  "cleared ext c \<longleftrightarrow>
     rpcClientConnCancelFunc c = None \<and> rpcClientConn c = None \<and>
     rpcClientConnContext c = None \<and> rpcForwardingClient c = None \<and>
     (case clusterListener c of
        None \<Rightarrow> True
      | Some l \<Rightarrow> clients l (RequestForwardingALPN ext) = None)"

text \<open>The outbound connections that are open after a run of events: a successful dial
  opens one, \<open>Close\<close> closes it.\<close>

fun live_step :: "event \<Rightarrow> ClientConn list \<Rightarrow> ClientConn list" where
  "live_step (Dialed host (Inr conn)) live = conn # live"
| "live_step (ConnClosed conn) live = removeAll conn live"
| "live_step e live = live"

definition live_conns :: "event list \<Rightarrow> ClientConn list" where
  "live_conns es = fold live_step es []"

text \<open>At most one connection is open before the run and after each of its events.\<close>

fun at_most_one_live :: "ClientConn list \<Rightarrow> event list \<Rightarrow> bool" where
  "at_most_one_live live [] = (length live \<le> 1)"
| "at_most_one_live live (e # es) = (length live \<le> 1 \<and> at_most_one_live (live_step e live) es)"

text \<open>The core knows its connections: those open are exactly the one it holds.\<close>

definition holds_live_conns :: "Core \<Rightarrow> bool" where
  "holds_live_conns c \<longleftrightarrow>
     live_conns (events c) = (case rpcClientConn c of None \<Rightarrow> [] | Some conn \<Rightarrow> [conn])"

text \<open>The events that set a connection up.\<close>

fun establishes :: "event \<Rightarrow> bool" where
  "establishes (ClientAdded alpn) = True"
| "establishes (Dialed host r) = True"
| "establishes (HeartbeatStarted conn) = True"
| "establishes e = False"

subsection \<open>Forwarding a request\<close>

text \<open>The loop that rebuilds the header multimap from the wire response.\<close>

definition ForwardRequest_range :: "(string, HeaderEntry) alist \<Rightarrow> http_Header" where
  "ForwardRequest_range entries =
     fold (\<lambda>(k, v) header. DAList.update k (Values v) header) (DAList.impl_of entries) DAList.empty"

type_synonym forward_result = "int \<times> http_Header option \<times> bytes option \<times> error option"

text \<open>
  The deferred calls of \<open>ForwardRequest\<close> run when it returns and when it panics, last
  registered first: the path is restored, the duration is measured, the read lock is
  released. The first return precedes two of the three \<open>defer\<close> statements, so only the
  unlock runs there. The type assertion on the context value panics on \<open>nil\<close> and on a
  value that is not a string; so does reading a field of a nil response. The request and
  its URL are taken as non-nil.
\<close>

definition ForwardRequest ::
  "externals \<Rightarrow> Core \<Rightarrow> http_Request \<Rightarrow> forward_result outcome \<times> Core \<times> http_Request"
where
  "ForwardRequest ext c req =
     (let c1 = emit RLock c in
      case rpcForwardingClient c1 of
        None \<Rightarrow> (Return (0, None, None, Some ErrCannotForward), emit RUnlock c1, req)
      | Some client \<Rightarrow>
          let origPath = Path (URL req);
              (res, c2, req1) =
                (case Value (Context req) ''original_request_path'' of
                   Some (StringValue p) \<Rightarrow>
                     let req1 = req\<lparr>URL := (URL req)\<lparr>Path := p\<rparr>\<rparr>;
                         c2 = emit (Serialized req1) c1
                     in
                       (case GenerateForwardedRequest ext req1 of
                          (freq, Some err) \<Rightarrow>
                            (Return (0, None, None, Some (Error ''error creating forwarding RPC request'')),
                             emit (LogError ''error creating forwarding RPC request'') c2, req1)
                        | (None, None) \<Rightarrow>
                            (Return (0, None, None, Some (Error ''got nil forwarding RPC request'')),
                             emit (LogError ''got nil forwarding RPC request'') c2, req1)
                        | (Some freq, None) \<Rightarrow>
                            let c3 = emit (RPCSent (Context req1) freq) c2 in
                            (case rpc_ForwardRequest ext client (Context req1) freq of
                               (resp, Some err) \<Rightarrow>
                                 (Return (0, None, None, Some (Error ''error during forwarding RPC request'')),
                                  emit (LogError ''error during forwarded RPC request'') (emit IncrCounter c3),
                                  req1)
                             | (None, None) \<Rightarrow> (Panic, c3, req1)
                             | (Some resp, None) \<Rightarrow>
                                 let header = (case HeaderEntries resp of
                                                 None \<Rightarrow> None
                                               | Some entries \<Rightarrow> Some (ForwardRequest_range entries))
                                 in (Return (sint (StatusCode resp), header, resp_Body resp, None),
                                     c3, req1)))
                 | _ \<Rightarrow> (Panic, c1, req))
          in (res, emit RUnlock (emit MeasureSince c2), req1\<lparr>URL := (URL req1)\<lparr>Path := origPath\<rparr>\<rparr>))"

subsection \<open>Traces of the connection management, for the proofs\<close>

text \<open>The events of \<open>clearForwardingClients\<close> and those that follow it in
  \<open>refreshRequestForwardingConnection\<close>, written as lists; the lemmas
  \<open>events_clearForwardingClients\<close> and \<open>events_refresh\<close> show that they are what the two
  functions append.\<close>

definition clear_events :: "externals \<Rightarrow> Core \<Rightarrow> event list" where
  "clear_events ext c =
     [LogDebug ''clearing forwarding clients''] @
     (case rpcClientConnCancelFunc c of None \<Rightarrow> [] | Some cancel \<Rightarrow> [CancelCalled cancel]) @
     (case rpcClientConn c of None \<Rightarrow> [] | Some conn \<Rightarrow> [ConnClosed conn]) @
     (case clusterListener c of
        None \<Rightarrow> []
      | Some l \<Rightarrow> [ClientRemoved (RequestForwardingALPN ext)]) @
     [LogDebug ''done clearing forwarding clients'']"

definition connect_events :: "externals \<Rightarrow> Core \<Rightarrow> go_context \<Rightarrow> string \<Rightarrow> event list" where
  "connect_events ext c ctx clusterAddr =
     (if clusterAddr = [] then []
      else
        case url_Parse ext clusterAddr of
          Inl err \<Rightarrow>
            [LogError ''error parsing cluster address attempting to refresh forwarding connection'']
        | Inr clusterURL \<Rightarrow>
            (case localClusterParsedCert c of
               None \<Rightarrow> [LogError ''no request forwarding cluster certificate found'']
             | Some parsedCert \<Rightarrow>
                 (case clusterListener c of
                    None \<Rightarrow> [LogError ''no cluster listener configured'']
                  | Some l \<Rightarrow>
                      [ClientAdded (RequestForwardingALPN ext),
                       Dialed (Host clusterURL)
                         (grpc_DialContext ext (WithCancel ctx) (Host clusterURL))] @
                      (case grpc_DialContext ext (WithCancel ctx) (Host clusterURL) of
                         Inl err \<Rightarrow>
                           [CancelCalled (CancelFunc (WithCancel ctx)),
                            LogError ''err setting up forwarding rpc client'']
                       | Inr conn \<Rightarrow> [HeartbeatStarted conn])))) @
     [Unlock, LogDebug ''done refreshing forwarding connection'']"

text \<open>The answer of \<open>grpc.DialContext\<close> in a call of
  \<open>refreshRequestForwardingConnection\<close>, when the call reaches the dial: the address is
  not empty and parses, and the core has a parsed certificate and a cluster listener.\<close>

definition dial_outcome ::
  "externals \<Rightarrow> Core \<Rightarrow> go_context \<Rightarrow> string \<Rightarrow> (error + ClientConn) option"
where
  "dial_outcome ext c ctx clusterAddr =
     (if clusterAddr = [] then None
      else
        case url_Parse ext clusterAddr of
          Inl err \<Rightarrow> None
        | Inr clusterURL \<Rightarrow>
            (case localClusterParsedCert c of
               None \<Rightarrow> None
             | Some parsedCert \<Rightarrow>
                 (case clusterListener c of
                    None \<Rightarrow> None
                  | Some l \<Rightarrow> Some (grpc_DialContext ext (WithCancel ctx) (Host clusterURL)))))"

text \<open>A run of calls to \<open>refreshRequestForwardingConnection\<close>, each with the answers
  that the outside gives during that call.\<close>

fun refresh_calls :: "Core \<Rightarrow> (externals \<times> go_context \<times> string) list \<Rightarrow> Core" where
  "refresh_calls c [] = c"
| "refresh_calls c ((ext, ctx, clusterAddr) # calls) =
     refresh_calls (snd (refreshRequestForwardingConnection ext c ctx clusterAddr)) calls"

text \<open>An event \<open>a\<close> happens before an event \<open>b\<close> in a trace: after the first \<open>a\<close> there
  is a \<open>b\<close>.\<close>

fun happens_before :: "event \<Rightarrow> event \<Rightarrow> event list \<Rightarrow> bool" where
  "happens_before a b [] = False"
| "happens_before a b (e # es) = (if e = a then b \<in> set es else happens_before a b es)"

subsection \<open>Concrete nodes and requests\<close>

definition leader_url :: url_URL where
  "leader_url = \<lparr>Scheme = ''https'', Host = ''10.0.0.1:8201'', Path = [], RawQuery = []\<rparr>"

definition echo_response :: forwarding_Response where
  "echo_response =
     \<lparr>StatusCode = 200,
      HeaderEntries = Some (Alist [(''X-Echo'', \<lparr>Values = [''ok'', ''again'']\<rparr>)]),
      resp_Body = Some [100, 111, 110, 101]\<rparr>"

definition serialize :: "http_Request \<Rightarrow> forwarding_Request option \<times> error option" where
  "serialize r =
     (Some \<lparr>fr_Method = Method r, fr_Path = Path (URL r),
            fr_HeaderEntries = Header r, fr_Body = Body r\<rparr>, None)"

text \<open>A leader at an address that the dial accepts.\<close>

definition reachable :: externals where
  "reachable =
     \<lparr>RequestForwardingALPN = ''req_fw_sb-act_v1'',
      ListenerAcceptDeadline = 500,
      url_Parse = (\<lambda>addr. Inr leader_url),
      grpc_DialContext = (\<lambda>dctx host. Inr (ClientConn 2)),
      GenerateForwardedRequest = serialize,
      rpc_ForwardRequest = (\<lambda>client ctx freq. (Some echo_response, None))\<rparr>"

text \<open>A leader advertised at a link-local IPv6 address with a zone,
  \<open>https://[fe80::1%25eth0]:8201\<close>. The URL parser unescapes the zone, so the host is
  \<open>[fe80::1%eth0]:8201\<close>; the dial cannot parse that as a target and returns the parse
  error.\<close>

definition zoned_url :: url_URL where
  "zoned_url = \<lparr>Scheme = ''https'', Host = ''[fe80::1%eth0]:8201'', Path = [], RawQuery = []\<rparr>"

definition zoned_leader :: externals where
  "zoned_leader =
     reachable
       \<lparr>url_Parse := (\<lambda>addr. Inr zoned_url),
        grpc_DialContext :=
          (\<lambda>dctx host.
             if host = ''[fe80::1%eth0]:8201'' then Inl (Error ''invalid URL escape'')
             else Inr (ClientConn 2))\<rparr>"

definition cluster_cert :: x509_Certificate where
  "cluster_cert = \<lparr>RawIssuer = [48, 17], SubjectCommonName = ''fw-node''\<rparr>"

text \<open>A standby with an identity and a listener, not connected; the same node connected to
  a leader; a node without a listener; a node before its first key generation.\<close>

definition standby_core :: Core where
  "standby_core =
     \<lparr>localClusterCert = [48, 130, 1],
      localClusterParsedCert = Some cluster_cert,
      localClusterPrivateKey = Some (ECDSAKey 7),
      clusterListener = Some \<lparr>clients = Map.empty\<rparr>,
      clusterHeartbeatInterval = 5,
      clusterLeaderParams = None,
      rpcClientConn = None,
      rpcClientConnContext = None,
      rpcClientConnCancelFunc = None,
      rpcForwardingClient = None,
      events = []\<rparr>"

definition leader_client :: forwardingClient where
  "leader_client =
     \<lparr>RequestForwardingClient = ClientConn 1, echoTicker = 5,
      echoContext = WithCancel (Background 0)\<rparr>"

definition connected_core :: Core where
  "connected_core =
     standby_core
       \<lparr>clusterListener :=
          Some \<lparr>clients = [''req_fw_sb-act_v1'' \<mapsto> requestForwardingClusterClient]\<rparr>,
        rpcClientConn := Some (ClientConn 1),
        rpcClientConnContext := Some (WithCancel (Background 0)),
        rpcClientConnCancelFunc := Some (CancelFunc (WithCancel (Background 0))),
        rpcForwardingClient := Some leader_client,
        events := [Dialed ''10.0.0.1:8201'' (Inr (ClientConn 1))]\<rparr>"

definition unlistened_core :: Core where
  "unlistened_core = standby_core\<lparr>clusterListener := None\<rparr>"

definition keyless_core :: Core where
  "keyless_core =
     standby_core\<lparr>localClusterCert := [], localClusterParsedCert := None,
                  localClusterPrivateKey := None\<rparr>"

definition serving_handler :: requestForwardingHandler where
  "serving_handler =
     \<lparr>ha = True, stopCh_closed = False, fwRPCServer_stopped = False, handler_events = []\<rparr>"

definition rewritten_request :: http_Request where
  "rewritten_request =
     \<lparr>Method = ''POST'',
      URL = \<lparr>Scheme = [], Host = [], Path = ''/secret/foo'', RawQuery = []\<rparr>,
      Header = [(''X-Test'', [''1'', ''2''])],
      Body = [112, 97, 121],
      RemoteAddr = ''10.0.0.9:40000'',
      Context = [(''original_request_path'', StringValue ''/v1/secret/foo'')]\<rparr>"

section \<open>Properties\<close>

subsection \<open>The TLS lookup callbacks\<close>

lemma ClientLookup_range_no_match:
  "RawIssuer parsedCert \<notin> set cas \<Longrightarrow>
   ClientLookup_range c parsedCert localCert cas = (None, None)"
  by (induction cas) auto

lemma ClientLookup_range_match:
  "RawIssuer parsedCert \<in> set cas \<Longrightarrow>
   ClientLookup_range c parsedCert localCert cas =
     (Some \<lparr>Certificate = [localCert], PrivateKey = localClusterPrivateKey c,
            Leaf = localClusterParsedCert c\<rparr>, None)"
  by (induction cas) auto

text \<open>
  Claim C6. With a local identity present (a parsed certificate and certificate bytes),
  \<open>ClientLookup\<close> answers a certificate request as follows: when the peer's list of
  acceptable CA subjects does not contain the raw issuer of the local certificate, it
  returns no certificate and no error; when some entry equals the raw issuer, it returns
  the local certificate (the stored bytes, the stored key, the parsed certificate as leaf)
  and no error.
\<close>

theorem ClientLookup_issuer:
  assumes "localClusterParsedCert c = Some parsedCert" and "localClusterCert c \<noteq> []"
  shows "(RawIssuer parsedCert \<notin> set (AcceptableCAs requestInfo) \<longrightarrow>
            ClientLookup c requestInfo = (None, None)) \<and>
         (RawIssuer parsedCert \<in> set (AcceptableCAs requestInfo) \<longrightarrow>
            ClientLookup c requestInfo =
              (Some \<lparr>Certificate = [localClusterCert c],
                     PrivateKey = localClusterPrivateKey c,
                     Leaf = Some parsedCert\<rparr>, None))"
  using assms
  by (simp add: ClientLookup_def ClientLookup_range_no_match ClientLookup_range_match)

text \<open>The standby's issuer is the second acceptable subject of one request and is
  missing from the other.\<close>

theorem ClientLookup_issuer_witness:
  "localClusterParsedCert standby_core = Some cluster_cert \<and>
   localClusterCert standby_core \<noteq> [] \<and>
   RawIssuer cluster_cert \<in> set (AcceptableCAs \<lparr>AcceptableCAs = [[48, 9], [48, 17]]\<rparr>) \<and>
   ClientLookup standby_core \<lparr>AcceptableCAs = [[48, 9], [48, 17]]\<rparr> =
     (Some \<lparr>Certificate = [[48, 130, 1]], PrivateKey = Some (ECDSAKey 7),
            Leaf = Some cluster_cert\<rparr>, None) \<and>
   RawIssuer cluster_cert \<notin> set (AcceptableCAs \<lparr>AcceptableCAs = [[48, 9], [48]]\<rparr>) \<and>
   ClientLookup standby_core \<lparr>AcceptableCAs = [[48, 9], [48]]\<rparr> = (None, None)"
proof -
  have parsed: "localClusterParsedCert standby_core = Some cluster_cert"
    by (simp add: standby_core_def)
  have bytes: "localClusterCert standby_core \<noteq> []"
    by (simp add: standby_core_def)
  have match: "RawIssuer cluster_cert \<in> set (AcceptableCAs \<lparr>AcceptableCAs = [[48, 9], [48, 17]]\<rparr>)"
    by (simp add: cluster_cert_def)
  have mismatch: "RawIssuer cluster_cert \<notin> set (AcceptableCAs \<lparr>AcceptableCAs = [[48, 9], [48]]\<rparr>)"
    by (simp add: cluster_cert_def)
  from ClientLookup_issuer [OF parsed bytes, of "\<lparr>AcceptableCAs = [[48, 9], [48, 17]]\<rparr>"] match
  have "ClientLookup standby_core \<lparr>AcceptableCAs = [[48, 9], [48, 17]]\<rparr> =
     (Some \<lparr>Certificate = [localClusterCert standby_core],
            PrivateKey = localClusterPrivateKey standby_core,
            Leaf = Some cluster_cert\<rparr>, None)"
    by blast
  moreover have "localClusterCert standby_core = [48, 130, 1]"
    and "localClusterPrivateKey standby_core = Some (ECDSAKey 7)"
    by (simp_all add: standby_core_def)
  ultimately have a: "ClientLookup standby_core \<lparr>AcceptableCAs = [[48, 9], [48, 17]]\<rparr> =
     (Some \<lparr>Certificate = [[48, 130, 1]], PrivateKey = Some (ECDSAKey 7),
            Leaf = Some cluster_cert\<rparr>, None)"
    by simp
  from ClientLookup_issuer [OF parsed bytes, of "\<lparr>AcceptableCAs = [[48, 9], [48]]\<rparr>"] mismatch
  have b: "ClientLookup standby_core \<lparr>AcceptableCAs = [[48, 9], [48]]\<rparr> = (None, None)"
    by blast
  from parsed bytes match mismatch a b show ?thesis by blast
qed

subsection \<open>The callbacks without an identity\<close>

text \<open>
  Claim C4, amended. Without an identity (no parsed certificate or no certificate bytes),
  \<open>ClientLookup\<close> declines with no certificate and no error. \<open>ServerLookup\<close> tests the
  certificate bytes only: without them it returns no certificate together with the error
  "got forwarding connection but no local cert".
\<close>

theorem lookups_without_identity:
  "((localClusterParsedCert c = None \<or> localClusterCert c = []) \<longrightarrow>
      ClientLookup c requestInfo = (None, None)) \<and>
   (localClusterCert c = [] \<longrightarrow>
      ServerLookup c clientHello =
        (None, Some (Error ''got forwarding connection but no local cert'')))"
  by (auto simp: ClientLookup_def ServerLookup_def split: option.splits)

text \<open>A node before its first key generation.\<close>

theorem lookups_without_identity_witness:
  "localClusterParsedCert keyless_core = None \<and> localClusterCert keyless_core = [] \<and>
   ClientLookup keyless_core \<lparr>AcceptableCAs = [[48, 17]]\<rparr> = (None, None) \<and>
   ServerLookup keyless_core \<lparr>ServerName = ''fw-node''\<rparr> =
     (None, Some (Error ''got forwarding connection but no local cert''))"
proof -
  have parsed: "localClusterParsedCert keyless_core = None"
    by (simp add: keyless_core_def standby_core_def)
  have bytes: "localClusterCert keyless_core = []"
    by (simp add: keyless_core_def standby_core_def)
  from lookups_without_identity [of keyless_core "\<lparr>AcceptableCAs = [[48, 17]]\<rparr>"
      "\<lparr>ServerName = ''fw-node''\<rparr>"] parsed bytes
  show ?thesis by blast
qed

text \<open>On that node \<open>ServerLookup\<close> does not return "no certificate and no error": it
  returns an error.\<close>

theorem ServerLookup_absent_counterexample:
  "localClusterCert keyless_core = [] \<and> localClusterParsedCert keyless_core = None \<and>
   ServerLookup keyless_core \<lparr>ServerName = ''fw-node''\<rparr> \<noteq> (None, None) \<and>
   snd (ServerLookup keyless_core \<lparr>ServerName = ''fw-node''\<rparr>) =
     Some (Error ''got forwarding connection but no local cert'')"
  by (simp add: ServerLookup_def keyless_core_def standby_core_def)

text \<open>With certificate bytes, \<open>ServerLookup\<close> returns a certificate whatever the parsed
  certificate is; the leaf is the parsed certificate, nil when there is none.\<close>

lemma ServerLookup_with_bytes:
  "localClusterCert c \<noteq> [] \<Longrightarrow>
   ServerLookup c clientHello =
     (Some \<lparr>Certificate = [localClusterCert c],
            PrivateKey = localClusterPrivateKey c,
            Leaf = localClusterParsedCert c\<rparr>, None)"
  by (simp add: ServerLookup_def)

subsection \<open>Stopping the forwarding handler\<close>

text \<open>
  Claim C3, amended. On a handler whose stop channel is still open, \<open>Stop\<close> first sleeps
  for the listener's accept deadline, then closes the stop channel, then stops the RPC
  server, and returns nil: grace sleep, signal, hard stop.
\<close>

theorem Stop_order:
  assumes "\<not> stopCh_closed rf"
  shows "Stop ext rf =
     (Return None,
      rf\<lparr>stopCh_closed := True, fwRPCServer_stopped := True,
         handler_events := handler_events rf @
           [Slept (ListenerAcceptDeadline ext), StopChClosed, ServerStopped]\<rparr>)"
  using assms by (simp add: Stop_def)

text \<open>A serving handler, with an accept deadline of 500.\<close>

theorem Stop_order_witness:
  "\<not> stopCh_closed serving_handler \<and>
   Stop reachable serving_handler =
     (Return None,
      \<lparr>ha = True, stopCh_closed = True, fwRPCServer_stopped = True,
       handler_events = [Slept 500, StopChClosed, ServerStopped]\<rparr>)"
proof -
  have "\<not> stopCh_closed serving_handler"
    by (simp add: serving_handler_def)
  from this Stop_order [OF this, of reachable] show ?thesis
    by (simp add: serving_handler_def reachable_def)
qed

text \<open>The order "signal, sleep, stop" is not the order of the events of \<open>Stop\<close>: the stop
  channel is closed after the sleep, not before it.\<close>

theorem Stop_signal_first_counterexample:
  "happens_before (Slept (ListenerAcceptDeadline reachable)) StopChClosed
     (handler_events (snd (Stop reachable serving_handler))) \<and>
   \<not> happens_before StopChClosed (Slept (ListenerAcceptDeadline reachable))
       (handler_events (snd (Stop reachable serving_handler)))"
  by (simp add: Stop_def serving_handler_def reachable_def)

text \<open>A second \<open>Stop\<close> sleeps and then panics on the closed channel.\<close>

lemma Stop_twice:
  "stopCh_closed rf \<Longrightarrow>
   Stop ext rf =
     (Panic, rf\<lparr>handler_events := handler_events rf @ [Slept (ListenerAcceptDeadline ext)]\<rparr>)"
  by (simp add: Stop_def)

subsection \<open>Forwarding a request\<close>

text \<open>
  Claim C5. Without a forwarding client, \<open>ForwardRequest\<close> returns status 0, nil headers,
  a nil body and \<open>ErrCannotForward\<close>. It takes and releases the read lock and does
  nothing else: no metric, no serialization, no RPC, and the request is untouched.
\<close>

theorem ForwardRequest_no_client:
  assumes "rpcForwardingClient c = None"
  shows "ForwardRequest ext c req =
     (Return (0, None, None, Some ErrCannotForward),
      c\<lparr>events := events c @ [RLock, RUnlock]\<rparr>, req)"
  using assms by (simp add: ForwardRequest_def emit_def)

text \<open>A standby that is not connected.\<close>

theorem ForwardRequest_no_client_witness:
  "rpcForwardingClient standby_core = None \<and>
   ForwardRequest reachable standby_core rewritten_request =
     (Return (0, None, None, Some ErrCannotForward),
      standby_core\<lparr>events := [RLock, RUnlock]\<rparr>, rewritten_request)"
proof -
  have "rpcForwardingClient standby_core = None"
    by (simp add: standby_core_def)
  from this ForwardRequest_no_client [OF this, of reachable rewritten_request] show ?thesis
    by (simp add: standby_core_def)
qed

text \<open>
  Claim C10. With a forwarding client established, a request whose context holds no
  string under "original_request_path" (no value, or a value of another type) makes
  \<open>ForwardRequest\<close> panic: it does not return, with an error or otherwise.
\<close>

theorem ForwardRequest_panics:
  assumes "rpcForwardingClient c = Some client"
    and "\<forall>p. Value (Context req) ''original_request_path'' \<noteq> Some (StringValue p)"
  shows "fst (ForwardRequest ext c req) = Panic"
  using assms
  by (auto simp: ForwardRequest_def emit_def Let_def split: option.splits ctx_value.splits)

text \<open>A request with an empty context, and one whose value under the key is not a
  string.\<close>

theorem ForwardRequest_panics_witness:
  "rpcForwardingClient connected_core = Some leader_client \<and>
   Value (Context (rewritten_request\<lparr>Context := []\<rparr>)) ''original_request_path'' = None \<and>
   fst (ForwardRequest reachable connected_core (rewritten_request\<lparr>Context := []\<rparr>)) = Panic \<and>
   Value (Context (rewritten_request\<lparr>Context := [(''original_request_path'', OtherValue 3)]\<rparr>))
     ''original_request_path'' = Some (OtherValue 3) \<and>
   fst (ForwardRequest reachable connected_core
          (rewritten_request\<lparr>Context := [(''original_request_path'', OtherValue 3)]\<rparr>)) = Panic"
proof -
  have client: "rpcForwardingClient connected_core = Some leader_client"
    by (simp add: connected_core_def)
  have none: "Value (Context (rewritten_request\<lparr>Context := []\<rparr>)) ''original_request_path'' = None"
    by (simp add: Value_def)
  have other: "Value (Context (rewritten_request\<lparr>Context := [(''original_request_path'', OtherValue 3)]\<rparr>))
     ''original_request_path'' = Some (OtherValue 3)"
    by (simp add: Value_def)
  have a: "fst (ForwardRequest reachable connected_core (rewritten_request\<lparr>Context := []\<rparr>)) = Panic"
    by (rule ForwardRequest_panics [OF client]) (simp only: none, simp)
  have b: "fst (ForwardRequest reachable connected_core
          (rewritten_request\<lparr>Context := [(''original_request_path'', OtherValue 3)]\<rparr>)) = Panic"
    by (rule ForwardRequest_panics [OF client]) (simp only: other, simp)
  from client none other a b show ?thesis by blast
qed

text \<open>The header loop: over a map, whose keys are distinct, the last update of a name is
  its only one.\<close>

lemma map_of_rev_distinct:
  "distinct (map fst xs) \<Longrightarrow> map_of (rev xs) = map_of xs"
proof (induction xs)
  case Nil
  then show ?case by simp
next
  case (Cons x xs)
  obtain k v where x: "x = (k, v)" by (cases x)
  from Cons.prems have k: "map_of xs k = None"
    by (simp add: x map_of_eq_None_iff)
  from Cons.prems have IH: "map_of (rev xs) = map_of xs"
    by (simp add: Cons.IH)
  show ?case
    by (rule ext) (simp add: x IH k map_add_def split: option.splits)
qed

lemma lookup_fold_update:
  "DAList.lookup (fold (\<lambda>(k, v) header. DAList.update k (Values v) header) xs h0) name =
     (case map_of (rev xs) name of
        None \<Rightarrow> DAList.lookup h0 name
      | Some v \<Rightarrow> Some (Values v))"
proof (induction xs arbitrary: h0)
  case Nil
  then show ?case by simp
next
  case (Cons x xs)
  obtain k v where x: "x = (k, v)" by (cases x)
  show ?case
    by (simp add: x Cons.IH DAList.lookup_update map_add_def split: option.splits)
qed

lemma lookup_ForwardRequest_range:
  "DAList.lookup (ForwardRequest_range entries) name =
     map_option Values (DAList.lookup entries name)"
proof -
  have "map_of (rev (DAList.impl_of entries)) = map_of (DAList.impl_of entries)"
    by (rule map_of_rev_distinct) simp
  then have "DAList.lookup (ForwardRequest_range entries) name =
      (case map_of (DAList.impl_of entries) name of
         None \<Rightarrow> None
       | Some v \<Rightarrow> Some (Values v))"
    by (simp only: ForwardRequest_range_def lookup_fold_update DAList.lookup_empty)
  then show ?thesis
    by (simp add: DAList.lookup.rep_eq split: option.splits)
qed

lemma lookup_Alist:
  "distinct (map fst xs) \<Longrightarrow> DAList.lookup (Alist xs) = map_of xs"
  by (simp add: DAList.lookup.rep_eq DAList.impl_of_Alist)

text \<open>
  Claim C8. Past the nil-client check, \<open>ForwardRequest\<close> leaves the caller's request as it
  was: the URL path is restored when the call returns and when it panics, and no other
  field changes. When the context holds the string \<open>p\<close> under "original_request_path",
  the request that is serialized is the caller's request with path \<open>p\<close>, it is the only one
  serialized, and every forwarding request sent over the RPC is what the serializer made
  of it.
\<close>

theorem ForwardRequest_restores_path:
  assumes "rpcForwardingClient c = Some client"
  shows "snd (snd (ForwardRequest ext c req)) = req \<and>
    (\<forall>p. Value (Context req) ''original_request_path'' = Some (StringValue p) \<longrightarrow>
       (let sent = req\<lparr>URL := (URL req)\<lparr>Path := p\<rparr>\<rparr>;
            new = drop (length (events c)) (events (fst (snd (ForwardRequest ext c req))))
        in Serialized sent \<in> set new \<and>
           (\<forall>r. Serialized r \<in> set new \<longrightarrow> r = sent) \<and>
           (\<forall>cx freq. RPCSent cx freq \<in> set new \<longrightarrow>
              GenerateForwardedRequest ext sent = (Some freq, None))))"
  using assms
  by (auto simp: ForwardRequest_def emit_def Let_def
      split: option.splits ctx_value.splits prod.splits)

text \<open>A connected standby forwards a request whose path the router rewrote.\<close>

lemma ForwardRequest_connected_core:
  "ForwardRequest reachable connected_core rewritten_request =
     (Return (200, Some (ForwardRequest_range (Alist [(''X-Echo'', \<lparr>Values = [''ok'', ''again'']\<rparr>)])),
              Some [100, 111, 110, 101], None),
      connected_core\<lparr>events := events connected_core @
        [RLock,
         Serialized (rewritten_request\<lparr>URL := (URL rewritten_request)\<lparr>Path := ''/v1/secret/foo''\<rparr>\<rparr>),
         RPCSent (Context rewritten_request)
           \<lparr>fr_Method = ''POST'', fr_Path = ''/v1/secret/foo'',
            fr_HeaderEntries = [(''X-Test'', [''1'', ''2''])], fr_Body = [112, 97, 121]\<rparr>,
         MeasureSince, RUnlock]\<rparr>,
      rewritten_request)"
  by (simp add: ForwardRequest_def connected_core_def rewritten_request_def reachable_def
      serialize_def echo_response_def emit_def Value_def Let_def)

theorem ForwardRequest_restores_path_witness:
  "rpcForwardingClient connected_core = Some leader_client \<and>
   Value (Context rewritten_request) ''original_request_path'' =
     Some (StringValue ''/v1/secret/foo'') \<and>
   Path (URL rewritten_request) = ''/secret/foo'' \<and>
   snd (snd (ForwardRequest reachable connected_core rewritten_request)) = rewritten_request \<and>
   Serialized (rewritten_request\<lparr>URL := (URL rewritten_request)\<lparr>Path := ''/v1/secret/foo''\<rparr>\<rparr>) \<in>
     set (drop (length (events connected_core))
            (events (fst (snd (ForwardRequest reachable connected_core rewritten_request))))) \<and>
   RPCSent (Context rewritten_request)
       \<lparr>fr_Method = ''POST'', fr_Path = ''/v1/secret/foo'',
        fr_HeaderEntries = [(''X-Test'', [''1'', ''2''])], fr_Body = [112, 97, 121]\<rparr> \<in>
     set (drop (length (events connected_core))
            (events (fst (snd (ForwardRequest reachable connected_core rewritten_request))))) \<and>
   GenerateForwardedRequest reachable
       (rewritten_request\<lparr>URL := (URL rewritten_request)\<lparr>Path := ''/v1/secret/foo''\<rparr>\<rparr>) =
     (Some \<lparr>fr_Method = ''POST'', fr_Path = ''/v1/secret/foo'',
            fr_HeaderEntries = [(''X-Test'', [''1'', ''2''])], fr_Body = [112, 97, 121]\<rparr>, None)"
proof -
  have client: "rpcForwardingClient connected_core = Some leader_client"
    by (simp add: connected_core_def)
  have path: "Value (Context rewritten_request) ''original_request_path'' =
     Some (StringValue ''/v1/secret/foo'')"
    by (simp add: Value_def rewritten_request_def)
  have orig: "Path (URL rewritten_request) = ''/secret/foo''"
    by (simp add: rewritten_request_def)
  have sent: "RPCSent (Context rewritten_request)
       \<lparr>fr_Method = ''POST'', fr_Path = ''/v1/secret/foo'',
        fr_HeaderEntries = [(''X-Test'', [''1'', ''2''])], fr_Body = [112, 97, 121]\<rparr> \<in>
     set (drop (length (events connected_core))
            (events (fst (snd (ForwardRequest reachable connected_core rewritten_request)))))"
    by (simp only: ForwardRequest_connected_core) simp
  note restored = ForwardRequest_restores_path [OF client, of reachable rewritten_request,
      unfolded Let_def]
  from restored have a: "snd (snd (ForwardRequest reachable connected_core rewritten_request)) =
      rewritten_request"
    by blast
  from restored path have b: "Serialized
      (rewritten_request\<lparr>URL := (URL rewritten_request)\<lparr>Path := ''/v1/secret/foo''\<rparr>\<rparr>) \<in>
     set (drop (length (events connected_core))
            (events (fst (snd (ForwardRequest reachable connected_core rewritten_request)))))"
    by blast
  from restored path sent have c: "GenerateForwardedRequest reachable
       (rewritten_request\<lparr>URL := (URL rewritten_request)\<lparr>Path := ''/v1/secret/foo''\<rparr>\<rparr>) =
     (Some \<lparr>fr_Method = ''POST'', fr_Path = ''/v1/secret/foo'',
            fr_HeaderEntries = [(''X-Test'', [''1'', ''2''])], fr_Body = [112, 97, 121]\<rparr>, None)"
    by blast
  from client path orig a b sent c show ?thesis by blast
qed

text \<open>
  Claim C9. When the serializer gives a forwarding request and the RPC gives a response
  and no error, \<open>ForwardRequest\<close> returns no error, the status \<open>int(resp.StatusCode)\<close>, the
  body \<open>resp.Body\<close> as it is, and a header that is nil when \<open>resp.HeaderEntries\<close> is nil
  and otherwise maps every name of \<open>resp.HeaderEntries\<close> to the ordered list of values of
  its entry, and no other name.
\<close>

theorem ForwardRequest_success:
  assumes "rpcForwardingClient c = Some client"
    and "Value (Context req) ''original_request_path'' = Some (StringValue p)"
    and "GenerateForwardedRequest ext (req\<lparr>URL := (URL req)\<lparr>Path := p\<rparr>\<rparr>) = (Some freq, None)"
    and "rpc_ForwardRequest ext client (Context req) freq = (Some resp, None)"
  shows "\<exists>header.
           fst (ForwardRequest ext c req) =
             Return (sint (StatusCode resp), header, resp_Body resp, None) \<and>
           (HeaderEntries resp = None \<longrightarrow> header = None) \<and>
           (\<forall>entries. HeaderEntries resp = Some entries \<longrightarrow>
              (\<exists>h. header = Some h \<and>
                 (\<forall>name. DAList.lookup h name =
                    map_option Values (DAList.lookup entries name))))"
  using assms
  by (auto simp: ForwardRequest_def emit_def Let_def lookup_ForwardRequest_range
      split: option.splits)

text \<open>The leader answers 200 with a header of two values and a body.\<close>

theorem ForwardRequest_success_witness:
  "rpcForwardingClient connected_core = Some leader_client \<and>
   Value (Context rewritten_request) ''original_request_path'' =
     Some (StringValue ''/v1/secret/foo'') \<and>
   GenerateForwardedRequest reachable
       (rewritten_request\<lparr>URL := (URL rewritten_request)\<lparr>Path := ''/v1/secret/foo''\<rparr>\<rparr>) =
     (Some \<lparr>fr_Method = ''POST'', fr_Path = ''/v1/secret/foo'',
            fr_HeaderEntries = [(''X-Test'', [''1'', ''2''])], fr_Body = [112, 97, 121]\<rparr>, None) \<and>
   rpc_ForwardRequest reachable leader_client (Context rewritten_request)
       \<lparr>fr_Method = ''POST'', fr_Path = ''/v1/secret/foo'',
        fr_HeaderEntries = [(''X-Test'', [''1'', ''2''])], fr_Body = [112, 97, 121]\<rparr> =
     (Some echo_response, None) \<and>
   (\<exists>h. fst (ForwardRequest reachable connected_core rewritten_request) =
          Return (200, Some h, Some [100, 111, 110, 101], None) \<and>
        DAList.lookup h ''X-Echo'' = Some [''ok'', ''again''] \<and>
        DAList.lookup h ''X-Other'' = None)"
proof -
  let ?freq = "\<lparr>fr_Method = ''POST'', fr_Path = ''/v1/secret/foo'',
        fr_HeaderEntries = [(''X-Test'', [''1'', ''2''])], fr_Body = [112, 97, 121]\<rparr>"
  let ?entries = "Alist [(''X-Echo'', \<lparr>Values = [''ok'', ''again'']\<rparr>)]"
  have client: "rpcForwardingClient connected_core = Some leader_client"
    by (simp add: connected_core_def)
  have path: "Value (Context rewritten_request) ''original_request_path'' =
     Some (StringValue ''/v1/secret/foo'')"
    by (simp add: Value_def rewritten_request_def)
  have gen: "GenerateForwardedRequest reachable
       (rewritten_request\<lparr>URL := (URL rewritten_request)\<lparr>Path := ''/v1/secret/foo''\<rparr>\<rparr>) =
     (Some ?freq, None)"
    by (simp add: reachable_def serialize_def rewritten_request_def)
  have rpc: "rpc_ForwardRequest reachable leader_client (Context rewritten_request) ?freq =
     (Some echo_response, None)"
    by (simp add: reachable_def)
  have status: "sint (StatusCode echo_response) = 200"
    and body: "resp_Body echo_response = Some [100, 111, 110, 101]"
    and entries: "HeaderEntries echo_response = Some ?entries"
    by (simp_all add: echo_response_def)
  have look: "DAList.lookup ?entries ''X-Echo'' = Some \<lparr>Values = [''ok'', ''again'']\<rparr>"
    "DAList.lookup ?entries ''X-Other'' = None"
    by (simp_all add: lookup_Alist)
  from ForwardRequest_success [OF client path gen rpc]
  obtain header where
    all: "fst (ForwardRequest reachable connected_core rewritten_request) =
            Return (sint (StatusCode echo_response), header, resp_Body echo_response, None) \<and>
          (HeaderEntries echo_response = None \<longrightarrow> header = None) \<and>
          (\<forall>entries. HeaderEntries echo_response = Some entries \<longrightarrow>
              (\<exists>h. header = Some h \<and>
                 (\<forall>name. DAList.lookup h name =
                    map_option Values (DAList.lookup entries name))))" ..
  from all have
    res: "fst (ForwardRequest reachable connected_core rewritten_request) =
            Return (sint (StatusCode echo_response), header, resp_Body echo_response, None)"
    by (rule conjunct1)
  from all have
    hdr: "\<forall>entries. HeaderEntries echo_response = Some entries \<longrightarrow>
              (\<exists>h. header = Some h \<and>
                 (\<forall>name. DAList.lookup h name =
                    map_option Values (DAList.lookup entries name)))"
    by (rule conjunct2 [THEN conjunct2])
  from hdr [rule_format, OF entries] have
    "\<exists>h. header = Some h \<and>
       (\<forall>name. DAList.lookup h name = map_option Values (DAList.lookup ?entries name))" .
  then obtain h where
    hh: "header = Some h \<and>
       (\<forall>name. DAList.lookup h name = map_option Values (DAList.lookup ?entries name))" ..
  then have h: "header = Some h"
      "\<forall>name. DAList.lookup h name = map_option Values (DAList.lookup ?entries name)"
    by simp_all
  from h(2) look have "DAList.lookup h ''X-Echo'' = Some [''ok'', ''again'']"
    "DAList.lookup h ''X-Other'' = None"
    by simp_all
  with res h(1) status body
  have "\<exists>h. fst (ForwardRequest reachable connected_core rewritten_request) =
          Return (200, Some h, Some [100, 111, 110, 101], None) \<and>
        DAList.lookup h ''X-Echo'' = Some [''ok'', ''again''] \<and>
        DAList.lookup h ''X-Other'' = None"
    by simp
  with client path gen rpc show ?thesis by blast
qed

subsection \<open>Connection management\<close>

lemma events_emit [simp]: "events (emit e c) = events c @ [e]"
  by (simp add: emit_def)

lemma live_conns_append: "live_conns (xs @ ys) = fold live_step ys (live_conns xs)"
  by (simp add: live_conns_def)

lemma at_most_one_live_start: "at_most_one_live live es \<Longrightarrow> length live \<le> 1"
  by (cases es) simp_all

lemma at_most_one_live_append:
  "at_most_one_live live (xs @ ys) \<longleftrightarrow>
     at_most_one_live live xs \<and> at_most_one_live (fold live_step xs live) ys"
  by (induction xs arbitrary: live) (auto dest: at_most_one_live_start)

lemma cleared_clearForwardingClients: "cleared ext (clearForwardingClients ext c)"
  by (simp add: cleared_def clearForwardingClients_def emit_def RemoveClient_def Let_def
      split: option.splits)



lemma at_most_one_live_extend:
  "at_most_one_live [] (xs @ ys) \<longleftrightarrow>
     at_most_one_live [] xs \<and> at_most_one_live (live_conns xs) ys"
  by (simp add: at_most_one_live_append live_conns_def)

lemma live_conns_snoc: "live_conns (xs @ [e]) = live_step e (live_conns xs)"
  by (simp add: live_conns_def)


lemma clearForwardingClients_fields:
  "rpcClientConnCancelFunc (clearForwardingClients ext c) = None"
  "rpcClientConn (clearForwardingClients ext c) = None"
  "rpcClientConnContext (clearForwardingClients ext c) = None"
  "rpcForwardingClient (clearForwardingClients ext c) = None"
  "clusterListener (clearForwardingClients ext c) =
     map_option (RemoveClient (RequestForwardingALPN ext)) (clusterListener c)"
  "localClusterParsedCert (clearForwardingClients ext c) = localClusterParsedCert c"
  by (simp_all add: clearForwardingClients_def emit_def Let_def split: option.splits)

lemma events_clearForwardingClients:
  "events (clearForwardingClients ext c) = events c @ clear_events ext c"
  by (simp add: clearForwardingClients_def clear_events_def emit_def Let_def split: option.splits)

lemma clear_events_not_establishes: "e \<in> set (clear_events ext c) \<Longrightarrow> \<not> establishes e"
  by (auto simp: clear_events_def split: option.splits)

lemma live_conns_clear_events:
  assumes "live = (case rpcClientConn c of None \<Rightarrow> [] | Some conn \<Rightarrow> [conn])"
  shows "fold live_step (clear_events ext c) live = []"
    and "at_most_one_live live (clear_events ext c)"
  using assms by (simp_all add: clear_events_def split: option.splits)


lemma refresh_after_clear_fields:
  "rpcClientConnCancelFunc (refresh_after_clear ext c) = None"
  "rpcClientConn (refresh_after_clear ext c) = None"
  "rpcClientConnContext (refresh_after_clear ext c) = None"
  "rpcForwardingClient (refresh_after_clear ext c) = None"
  "clusterListener (refresh_after_clear ext c) =
     map_option (RemoveClient (RequestForwardingALPN ext)) (clusterListener c)"
  "localClusterParsedCert (refresh_after_clear ext c) = localClusterParsedCert c"
  by (simp_all add: refresh_after_clear_def clearForwardingClients_fields emit_def)

lemma events_refresh_after_clear:
  "events (refresh_after_clear ext c) =
     events c @ [LogDebug ''refreshing forwarding connection'', Lock] @ clear_events ext c"
  by (simp add: refresh_after_clear_def events_clearForwardingClients clear_events_def emit_def)

lemma events_refresh:
  "events (snd (refreshRequestForwardingConnection ext c ctx clusterAddr)) =
     events (refresh_after_clear ext c) @ connect_events ext c ctx clusterAddr"
  unfolding refreshRequestForwardingConnection_def connect_events_def Let_def
    refresh_after_clear_def [symmetric]
  by (simp add: refresh_after_clear_fields emit_def split: option.splits sum.splits)

lemma rpcClientConn_refresh:
  "rpcClientConn (snd (refreshRequestForwardingConnection ext c ctx clusterAddr)) =
     (case live_conns (connect_events ext c ctx clusterAddr) of [] \<Rightarrow> None | conn # _ \<Rightarrow> Some conn)"
  unfolding refreshRequestForwardingConnection_def connect_events_def Let_def
    refresh_after_clear_def [symmetric]
  by (simp add: refresh_after_clear_fields emit_def live_conns_def split: option.splits sum.splits)

lemma connect_events_live:
  "at_most_one_live [] (connect_events ext c ctx clusterAddr) \<and>
   length (live_conns (connect_events ext c ctx clusterAddr)) \<le> 1"
  by (simp add: connect_events_def live_conns_def split: option.splits sum.splits)


lemma live_conns_refresh_after_clear:
  assumes "holds_live_conns c"
  shows "live_conns (events (refresh_after_clear ext c)) = []"
proof -
  have "live_conns (events (refresh_after_clear ext c)) =
          fold live_step (clear_events ext c) (live_conns (events c))"
    by (simp add: events_refresh_after_clear live_conns_def)
  also have "\<dots> = []"
    using assms by (simp add: holds_live_conns_def live_conns_clear_events)
  finally show ?thesis .
qed

lemma at_most_one_live_refresh_after_clear:
  assumes "holds_live_conns c" and "at_most_one_live [] (events c)"
  shows "at_most_one_live [] (events (refresh_after_clear ext c))"
proof -
  have "at_most_one_live (live_conns (events c))
          ([LogDebug ''refreshing forwarding connection'', Lock] @ clear_events ext c)"
    using assms(1) live_conns_clear_events(2) [of "live_conns (events c)" c ext]
    by (simp add: holds_live_conns_def split: option.splits)
  with assms(2) show ?thesis
    by (simp only: events_refresh_after_clear at_most_one_live_extend)
qed

lemma at_most_one_live_refresh:
  assumes "holds_live_conns c" and "at_most_one_live [] (events c)"
  shows "at_most_one_live []
           (events (snd (refreshRequestForwardingConnection ext c ctx clusterAddr)))"
  using assms
  by (simp add: events_refresh at_most_one_live_extend at_most_one_live_refresh_after_clear
      live_conns_refresh_after_clear connect_events_live)

lemma holds_live_conns_refresh:
  assumes "holds_live_conns c"
  shows "holds_live_conns (snd (refreshRequestForwardingConnection ext c ctx clusterAddr))"
proof -
  have "live_conns (events (snd (refreshRequestForwardingConnection ext c ctx clusterAddr))) =
          live_conns (connect_events ext c ctx clusterAddr)"
    using live_conns_refresh_after_clear [OF assms, of ext]
    by (simp add: events_refresh live_conns_append) (simp add: live_conns_def)
  moreover have "length (live_conns (connect_events ext c ctx clusterAddr)) \<le> 1"
    using connect_events_live [of ext c ctx clusterAddr] by blast
  ultimately show ?thesis
    by (cases "live_conns (connect_events ext c ctx clusterAddr)")
      (simp_all add: holds_live_conns_def rpcClientConn_refresh)
qed

lemma cleared_refresh_after_clear: "cleared ext (refresh_after_clear ext c)"
  by (simp add: refresh_after_clear_def cleared_clearForwardingClients)

lemma cleared_emit: "cleared ext (emit e c) = cleared ext c"
  by (simp add: cleared_def emit_def)

lemma refresh_empty_address:
  "refreshRequestForwardingConnection ext c ctx [] =
     (None, emit (LogDebug ''done refreshing forwarding connection'')
              (emit Unlock (refresh_after_clear ext c)))"
  by (simp add: refreshRequestForwardingConnection_def refresh_after_clear_def Let_def)

text \<open>The state after the clearing, and the state after the call, field by field.\<close>

lemma refresh_after_clear_state:
  "refresh_after_clear ext c =
     c\<lparr>rpcClientConnCancelFunc := None,
       rpcClientConn := None,
       rpcClientConnContext := None,
       rpcForwardingClient := None,
       clusterListener :=
         map_option (RemoveClient (RequestForwardingALPN ext)) (clusterListener c),
       clusterLeaderParams := None,
       events := events c @
         [LogDebug ''refreshing forwarding connection'', Lock,
          LogDebug ''clearing forwarding clients''] @
         (case rpcClientConnCancelFunc c of None \<Rightarrow> [] | Some cancel \<Rightarrow> [CancelCalled cancel]) @
         (case rpcClientConn c of None \<Rightarrow> [] | Some conn \<Rightarrow> [ConnClosed conn]) @
         (case clusterListener c of
            None \<Rightarrow> []
          | Some l \<Rightarrow> [ClientRemoved (RequestForwardingALPN ext)]) @
         [LogDebug ''done clearing forwarding clients'']\<rparr>"
  by (simp add: refresh_after_clear_def clearForwardingClients_def emit_def Let_def
      split: option.splits)

lemma refresh_state:
  "snd (refreshRequestForwardingConnection ext c ctx clusterAddr) =
     (refresh_after_clear ext c)
       \<lparr>clusterListener :=
          (case dial_outcome ext c ctx clusterAddr of
             None \<Rightarrow> clusterListener (refresh_after_clear ext c)
           | Some dialed \<Rightarrow>
               map_option (AddClient (RequestForwardingALPN ext) requestForwardingClusterClient)
                 (clusterListener (refresh_after_clear ext c))),
        rpcClientConn :=
          (case dial_outcome ext c ctx clusterAddr of
             Some (Inr conn) \<Rightarrow> Some conn
           | _ \<Rightarrow> None),
        rpcClientConnContext :=
          (case dial_outcome ext c ctx clusterAddr of
             Some (Inr conn) \<Rightarrow> Some (WithCancel ctx)
           | _ \<Rightarrow> None),
        rpcClientConnCancelFunc :=
          (case dial_outcome ext c ctx clusterAddr of
             Some (Inr conn) \<Rightarrow> Some (CancelFunc (WithCancel ctx))
           | _ \<Rightarrow> None),
        rpcForwardingClient :=
          (case dial_outcome ext c ctx clusterAddr of
             Some (Inr conn) \<Rightarrow>
               Some \<lparr>RequestForwardingClient = conn,
                     echoTicker = clusterHeartbeatInterval c,
                     echoContext = WithCancel ctx\<rparr>
           | _ \<Rightarrow> None),
        events := events (refresh_after_clear ext c) @ connect_events ext c ctx clusterAddr\<rparr>"
  unfolding refreshRequestForwardingConnection_def Let_def refresh_after_clear_def [symmetric]
  by (rule Core.equality)
    (simp_all add: refresh_after_clear_fields dial_outcome_def connect_events_def emit_def
      refresh_after_clear_state
      split: option.splits sum.splits)

text \<open>From a core that holds its open connections, any run of calls keeps at most one
  connection open at every point.\<close>

lemma holds_live_conns_refresh_calls:
  "holds_live_conns c \<Longrightarrow> holds_live_conns (refresh_calls c calls)"
  by (induction c calls rule: refresh_calls.induct) (simp_all add: holds_live_conns_refresh)

lemma at_most_one_live_refresh_calls:
  "holds_live_conns c \<Longrightarrow> at_most_one_live [] (events c) \<Longrightarrow>
   at_most_one_live [] (events (refresh_calls c calls))"
  by (induction c calls rule: refresh_calls.induct)
    (simp_all add: holds_live_conns_refresh at_most_one_live_refresh)

lemma holds_live_conns_connected_core: "holds_live_conns connected_core"
  by (simp add: holds_live_conns_def connected_core_def live_conns_def)

lemma at_most_one_live_connected_core: "at_most_one_live [] (events connected_core)"
  by (simp add: connected_core_def)

text \<open>
  Claim C1. Every call of \<open>refreshRequestForwardingConnection\<close> first reaches the state
  \<open>mid\<close>, which is the core it was called on with the cancel function, the RPC
  connection, the context and the client set to nil, the client registration under the
  forwarding tag removed from the listener, and a trace that has grown by the call of the
  old cancel function, the close of the old connection and the removal of the client,
  with no client added, nothing dialed and no heartbeat started. The state after the call
  is \<open>mid\<close> with what the call set up afterwards and nothing else: a client registration
  when the call reached the dial; the new connection, context, cancel function and client
  when the dial gave a connection, and nil in these four fields on every other path. If
  the core held its open connections before the call, none is open in \<open>mid\<close>, the core
  holds them again after the call, and at no point of the trace is more than one
  connection open. With an empty address the call returns nil from \<open>mid\<close>: it only
  releases the lock and logs.
\<close>

theorem refresh_clears_before_connecting:
  "(let mid = refresh_after_clear ext c;
        r = refreshRequestForwardingConnection ext c ctx clusterAddr;
        dialed = dial_outcome ext c ctx clusterAddr
    in mid =
         c\<lparr>rpcClientConnCancelFunc := None,
           rpcClientConn := None,
           rpcClientConnContext := None,
           rpcForwardingClient := None,
           clusterListener :=
             map_option (RemoveClient (RequestForwardingALPN ext)) (clusterListener c),
           clusterLeaderParams := None,
           events := events c @
             [LogDebug ''refreshing forwarding connection'', Lock,
              LogDebug ''clearing forwarding clients''] @
             (case rpcClientConnCancelFunc c of
                None \<Rightarrow> []
              | Some cancel \<Rightarrow> [CancelCalled cancel]) @
             (case rpcClientConn c of None \<Rightarrow> [] | Some conn \<Rightarrow> [ConnClosed conn]) @
             (case clusterListener c of
                None \<Rightarrow> []
              | Some l \<Rightarrow> [ClientRemoved (RequestForwardingALPN ext)]) @
             [LogDebug ''done clearing forwarding clients'']\<rparr> \<and>
       snd r =
         mid\<lparr>clusterListener :=
               (case dialed of
                  None \<Rightarrow> clusterListener mid
                | Some d \<Rightarrow>
                    map_option
                      (AddClient (RequestForwardingALPN ext) requestForwardingClusterClient)
                      (clusterListener mid)),
             rpcClientConn := (case dialed of Some (Inr conn) \<Rightarrow> Some conn | _ \<Rightarrow> None),
             rpcClientConnContext :=
               (case dialed of Some (Inr conn) \<Rightarrow> Some (WithCancel ctx) | _ \<Rightarrow> None),
             rpcClientConnCancelFunc :=
               (case dialed of
                  Some (Inr conn) \<Rightarrow> Some (CancelFunc (WithCancel ctx))
                | _ \<Rightarrow> None),
             rpcForwardingClient :=
               (case dialed of
                  Some (Inr conn) \<Rightarrow>
                    Some \<lparr>RequestForwardingClient = conn,
                          echoTicker = clusterHeartbeatInterval c,
                          echoContext = WithCancel ctx\<rparr>
                | _ \<Rightarrow> None),
             events := events mid @ connect_events ext c ctx clusterAddr\<rparr> \<and>
       cleared ext mid \<and>
       prefix (events c) (events mid) \<and>
       prefix (events mid) (events (snd r)) \<and>
       (\<forall>e \<in> set (drop (length (events c)) (events mid)). \<not> establishes e) \<and>
       (holds_live_conns c \<longrightarrow> live_conns (events mid) = [] \<and> holds_live_conns (snd r)) \<and>
       (holds_live_conns c \<and> at_most_one_live [] (events c) \<longrightarrow>
          at_most_one_live [] (events (snd r))) \<and>
       (clusterAddr = [] \<longrightarrow>
          r = (None, emit (LogDebug ''done refreshing forwarding connection'') (emit Unlock mid)) \<and>
          cleared ext (snd r) \<and>
          (\<forall>e \<in> set (drop (length (events c)) (events (snd r))). \<not> establishes e)))"
proof -
  let ?mid = "refresh_after_clear ext c"
  let ?r = "refreshRequestForwardingConnection ext c ctx clusterAddr"
  note state = refresh_after_clear_state [of ext c] refresh_state [of ext c ctx clusterAddr]
  have 1: "cleared ext ?mid"
    by (rule cleared_refresh_after_clear)
  have 2: "prefix (events c) (events ?mid)"
    by (simp add: events_refresh_after_clear)
  have 3: "prefix (events ?mid) (events (snd ?r))"
    by (simp add: events_refresh)
  have 4: "\<forall>e \<in> set (drop (length (events c)) (events ?mid)). \<not> establishes e"
    by (auto simp: events_refresh_after_clear dest: clear_events_not_establishes)
  have 5: "holds_live_conns c \<longrightarrow> live_conns (events ?mid) = [] \<and> holds_live_conns (snd ?r)"
    by (simp add: live_conns_refresh_after_clear holds_live_conns_refresh)
  have 6: "holds_live_conns c \<and> at_most_one_live [] (events c) \<longrightarrow>
             at_most_one_live [] (events (snd ?r))"
    by (simp add: at_most_one_live_refresh)
  have 7: "clusterAddr = [] \<longrightarrow>
             ?r = (None, emit (LogDebug ''done refreshing forwarding connection'') (emit Unlock ?mid)) \<and>
             cleared ext (snd ?r) \<and>
             (\<forall>e \<in> set (drop (length (events c)) (events (snd ?r))). \<not> establishes e)"
  proof
    assume empty: "clusterAddr = []"
    have a: "?r = (None, emit (LogDebug ''done refreshing forwarding connection'') (emit Unlock ?mid))"
      by (simp add: empty refresh_empty_address)
    have b: "cleared ext (snd ?r)"
      by (simp add: a cleared_emit 1)
    have c: "\<forall>e \<in> set (drop (length (events c)) (events (snd ?r))). \<not> establishes e"
      by (auto simp: events_refresh events_refresh_after_clear connect_events_def empty
          dest: clear_events_not_establishes)
    from a b c show "?r = (None, emit (LogDebug ''done refreshing forwarding connection'') (emit Unlock ?mid)) \<and>
             cleared ext (snd ?r) \<and>
             (\<forall>e \<in> set (drop (length (events c)) (events (snd ?r))). \<not> establishes e)"
      by blast
  qed
  from 1 2 3 4 5 6 7 have rest:
    "cleared ext ?mid \<and>
     prefix (events c) (events ?mid) \<and>
     prefix (events ?mid) (events (snd ?r)) \<and>
     (\<forall>e \<in> set (drop (length (events c)) (events ?mid)). \<not> establishes e) \<and>
     (holds_live_conns c \<longrightarrow> live_conns (events ?mid) = [] \<and> holds_live_conns (snd ?r)) \<and>
     (holds_live_conns c \<and> at_most_one_live [] (events c) \<longrightarrow>
        at_most_one_live [] (events (snd ?r))) \<and>
     (clusterAddr = [] \<longrightarrow>
        ?r = (None, emit (LogDebug ''done refreshing forwarding connection'') (emit Unlock ?mid)) \<and>
        cleared ext (snd ?r) \<and>
        (\<forall>e \<in> set (drop (length (events c)) (events (snd ?r))). \<not> establishes e))"
    by blast
  show ?thesis
    unfolding Let_def
    by (intro conjI state rest [THEN conjunct1] rest [THEN conjunct2])
qed

text \<open>A connected standby learns of a new leader, and of no leader.\<close>

theorem refresh_clears_before_connecting_witness:
  "holds_live_conns connected_core \<and>
   at_most_one_live [] (events connected_core) \<and>
   cleared reachable (refresh_after_clear reachable connected_core) \<and>
   events (refresh_after_clear reachable connected_core) =
     [Dialed ''10.0.0.1:8201'' (Inr (ClientConn 1)),
      LogDebug ''refreshing forwarding connection'', Lock,
      LogDebug ''clearing forwarding clients'',
      CancelCalled (CancelFunc (WithCancel (Background 0))),
      ConnClosed (ClientConn 1),
      ClientRemoved ''req_fw_sb-act_v1'',
      LogDebug ''done clearing forwarding clients''] \<and>
   live_conns (events (refresh_after_clear reachable connected_core)) = [] \<and>
   rpcClientConn
     (snd (refreshRequestForwardingConnection reachable connected_core (Background 2)
             ''https://10.0.0.1:8201'')) = Some (ClientConn 2) \<and>
   rpcClientConnCancelFunc
     (snd (refreshRequestForwardingConnection reachable connected_core (Background 2)
             ''https://10.0.0.1:8201'')) = Some (CancelFunc (WithCancel (Background 2))) \<and>
   at_most_one_live []
     (events (snd (refreshRequestForwardingConnection reachable connected_core (Background 2)
                     ''https://10.0.0.1:8201''))) \<and>
   holds_live_conns
     (snd (refreshRequestForwardingConnection reachable connected_core (Background 2)
             ''https://10.0.0.1:8201'')) \<and>
   fst (refreshRequestForwardingConnection reachable connected_core (Background 2) []) = None \<and>
   cleared reachable
     (snd (refreshRequestForwardingConnection reachable connected_core (Background 2) [])) \<and>
   rpcForwardingClient
     (snd (refreshRequestForwardingConnection reachable connected_core (Background 2) [])) = None"
proof -
  note live = holds_live_conns_connected_core
  note one = at_most_one_live_connected_core
  note dial = refresh_clears_before_connecting
    [of reachable connected_core "Background 2" "''https://10.0.0.1:8201''", unfolded Let_def]
  note none = refresh_clears_before_connecting
    [of reachable connected_core "Background 2" "[]", unfolded Let_def]
  note mid = dial [THEN conjunct1]
  note dial_state = dial [THEN conjunct2, THEN conjunct1]
  note dial_rest = dial [THEN conjunct2, THEN conjunct2]
  note none_state = none [THEN conjunct2, THEN conjunct1]
  note none_rest = none [THEN conjunct2, THEN conjunct2]
  have outcome: "dial_outcome reachable connected_core (Background 2) ''https://10.0.0.1:8201'' =
      Some (Inr (ClientConn 2))"
    by (simp add: dial_outcome_def reachable_def connected_core_def standby_core_def)
  have no_outcome: "dial_outcome reachable connected_core (Background 2) [] = None"
    by (simp add: dial_outcome_def)
  have trace: "events (refresh_after_clear reachable connected_core) =
     [Dialed ''10.0.0.1:8201'' (Inr (ClientConn 1)),
      LogDebug ''refreshing forwarding connection'', Lock,
      LogDebug ''clearing forwarding clients'',
      CancelCalled (CancelFunc (WithCancel (Background 0))),
      ConnClosed (ClientConn 1),
      ClientRemoved ''req_fw_sb-act_v1'',
      LogDebug ''done clearing forwarding clients'']"
    by (subst mid) (simp add: connected_core_def standby_core_def reachable_def)
  have conn: "rpcClientConn
     (snd (refreshRequestForwardingConnection reachable connected_core (Background 2)
             ''https://10.0.0.1:8201'')) = Some (ClientConn 2)"
    by (subst dial_state) (simp add: outcome)
  have cancel: "rpcClientConnCancelFunc
     (snd (refreshRequestForwardingConnection reachable connected_core (Background 2)
             ''https://10.0.0.1:8201'')) = Some (CancelFunc (WithCancel (Background 2)))"
    by (subst dial_state) (simp add: outcome)
  have client: "rpcForwardingClient
     (snd (refreshRequestForwardingConnection reachable connected_core (Background 2) [])) = None"
    by (subst none_state) (simp add: no_outcome)
  from none_rest have ret:
    "fst (refreshRequestForwardingConnection reachable connected_core (Background 2) []) = None"
    by simp
  from none_rest have clr: "cleared reachable
     (snd (refreshRequestForwardingConnection reachable connected_core (Background 2) []))"
    by blast
  from live one dial_rest trace conn cancel client ret clr show ?thesis
    by blast
qed

text \<open>What \<open>refreshRequestForwardingConnection\<close> returns.\<close>

lemma fst_refresh:
  "fst (refreshRequestForwardingConnection ext c ctx clusterAddr) =
     (if clusterAddr = [] then None
      else
        case url_Parse ext clusterAddr of
          Inl err \<Rightarrow> Some err
        | Inr clusterURL \<Rightarrow>
            (case localClusterParsedCert c of
               None \<Rightarrow> Some (Error ''no request forwarding cluster certificate found'')
             | Some parsedCert \<Rightarrow>
                 (case clusterListener c of
                    None \<Rightarrow> None
                  | Some l \<Rightarrow>
                      (case grpc_DialContext ext (WithCancel ctx) (Host clusterURL) of
                         Inl err \<Rightarrow> Some err
                       | Inr conn \<Rightarrow> None))))"
  unfolding refreshRequestForwardingConnection_def Let_def refresh_after_clear_def [symmetric]
  by (simp add: refresh_after_clear_fields split: option.splits sum.splits)

lemma refresh_no_listener_state:
  assumes "clusterListener c = None"
  shows "cleared ext (snd (refreshRequestForwardingConnection ext c ctx clusterAddr))"
  using assms
  unfolding refreshRequestForwardingConnection_def Let_def refresh_after_clear_def [symmetric]
  by (simp add: refresh_after_clear_fields cleared_def emit_def split: option.splits sum.splits)

text \<open>
  Claim C2, amended. For a non-empty address that parses: without a local cluster
  identity the call returns the error "no request forwarding cluster certificate found";
  with an identity and without a cluster listener it logs the error "no cluster listener
  configured", sets nothing up and returns nil.
\<close>

theorem refresh_missing_preconditions:
  assumes "clusterAddr \<noteq> []" and "url_Parse ext clusterAddr = Inr clusterURL"
  shows "(localClusterParsedCert c = None \<longrightarrow>
            fst (refreshRequestForwardingConnection ext c ctx clusterAddr) =
              Some (Error ''no request forwarding cluster certificate found'')) \<and>
         (localClusterParsedCert c \<noteq> None \<and> clusterListener c = None \<longrightarrow>
            fst (refreshRequestForwardingConnection ext c ctx clusterAddr) = None \<and>
            drop (length (events (refresh_after_clear ext c)))
              (events (snd (refreshRequestForwardingConnection ext c ctx clusterAddr))) =
              [LogError ''no cluster listener configured'', Unlock,
               LogDebug ''done refreshing forwarding connection''] \<and>
            cleared ext (snd (refreshRequestForwardingConnection ext c ctx clusterAddr)))"
  using assms
  by (auto simp: fst_refresh events_refresh connect_events_def refresh_no_listener_state)

text \<open>A node without an identity, and a node without a listener.\<close>

theorem refresh_missing_preconditions_witness:
  "''https://10.0.0.1:8201'' \<noteq> [] \<and>
   url_Parse reachable ''https://10.0.0.1:8201'' = Inr leader_url \<and>
   localClusterParsedCert keyless_core = None \<and>
   fst (refreshRequestForwardingConnection reachable keyless_core (Background 1)
          ''https://10.0.0.1:8201'') =
     Some (Error ''no request forwarding cluster certificate found'') \<and>
   localClusterParsedCert unlistened_core \<noteq> None \<and> clusterListener unlistened_core = None \<and>
   fst (refreshRequestForwardingConnection reachable unlistened_core (Background 1)
          ''https://10.0.0.1:8201'') = None \<and>
   cleared reachable
     (snd (refreshRequestForwardingConnection reachable unlistened_core (Background 1)
             ''https://10.0.0.1:8201''))"
proof -
  have addr: "''https://10.0.0.1:8201'' \<noteq> []"
    by simp
  have parse: "url_Parse reachable ''https://10.0.0.1:8201'' = Inr leader_url"
    by (simp add: reachable_def)
  have keyless: "localClusterParsedCert keyless_core = None"
    by (simp add: keyless_core_def standby_core_def)
  have unlistened: "localClusterParsedCert unlistened_core \<noteq> None"
    "clusterListener unlistened_core = None"
    by (simp_all add: unlistened_core_def standby_core_def)
  from refresh_missing_preconditions [OF addr parse, of keyless_core "Background 1"] keyless
  have a: "fst (refreshRequestForwardingConnection reachable keyless_core (Background 1)
          ''https://10.0.0.1:8201'') =
     Some (Error ''no request forwarding cluster certificate found'')"
    by blast
  from refresh_missing_preconditions [OF addr parse, of unlistened_core "Background 1"] unlistened
  have b: "fst (refreshRequestForwardingConnection reachable unlistened_core (Background 1)
          ''https://10.0.0.1:8201'') = None \<and>
   cleared reachable
     (snd (refreshRequestForwardingConnection reachable unlistened_core (Background 1)
             ''https://10.0.0.1:8201''))"
    by blast
  from addr parse keyless unlistened a b show ?thesis by blast
qed

text \<open>Without a listener the call does not return a non-nil error.\<close>

theorem refresh_no_listener_counterexample:
  "''https://10.0.0.1:8201'' \<noteq> [] \<and>
   url_Parse reachable ''https://10.0.0.1:8201'' = Inr leader_url \<and>
   clusterListener unlistened_core = None \<and>
   \<not> fst (refreshRequestForwardingConnection reachable unlistened_core (Background 1)
            ''https://10.0.0.1:8201'') \<noteq> None"
  by (simp add: fst_refresh reachable_def unlistened_core_def standby_core_def)

text \<open>A failed dial in the trace of a call: the call reached the dial, with an identity
  and a listener.\<close>

lemma Dialed_failure_in_connect_events:
  assumes "Dialed host (Inl err) \<in> set (connect_events ext c ctx clusterAddr)"
  shows "\<exists>clusterURL parsedCert l.
           clusterAddr \<noteq> [] \<and> url_Parse ext clusterAddr = Inr clusterURL \<and>
           localClusterParsedCert c = Some parsedCert \<and> clusterListener c = Some l \<and>
           grpc_DialContext ext (WithCancel ctx) (Host clusterURL) = Inl err"
  using assms
  by (auto simp: connect_events_def split: if_splits sum.splits option.splits)

lemma Dialed_not_in_clear_events: "Dialed host r \<notin> set (clear_events ext c)"
  by (auto simp: clear_events_def split: option.splits)

lemma refresh_dial_failed:
  assumes "clusterAddr \<noteq> []" and "url_Parse ext clusterAddr = Inr clusterURL"
    and "localClusterParsedCert c = Some parsedCert" and "clusterListener c = Some l"
    and "grpc_DialContext ext (WithCancel ctx) (Host clusterURL) = Inl err"
  shows "refreshRequestForwardingConnection ext c ctx clusterAddr =
     (Some err,
      (refresh_after_clear ext c)
        \<lparr>clusterListener :=
           Some (AddClient (RequestForwardingALPN ext) requestForwardingClusterClient
                   (RemoveClient (RequestForwardingALPN ext) l)),
         events := events (refresh_after_clear ext c) @
           [ClientAdded (RequestForwardingALPN ext),
            Dialed (Host clusterURL) (Inl err),
            CancelCalled (CancelFunc (WithCancel ctx)),
            LogError ''err setting up forwarding rpc client'',
            Unlock,
            LogDebug ''done refreshing forwarding connection'']\<rparr>)"
  using assms
  unfolding refreshRequestForwardingConnection_def Let_def refresh_after_clear_def [symmetric]
  by (simp add: refresh_after_clear_fields emit_def)

text \<open>
  Claim C7, amended. When the dial of a call fails, that is, when \<open>grpc.DialContext\<close>
  returns an error (the dial does not wait for the peer, so a leader that is down or
  refuses the connection is not such a failure), the call returns the dial's error, the
  context made for the dial is cancelled, and the core is left with no RPC connection, no
  cancel function, no connection context and no forwarding client. The client identity
  that the call registered on the cluster listener before dialing stays registered.
\<close>

theorem refresh_dial_failure:
  assumes "Dialed host (Inl err) \<in>
             set (drop (length (events c))
                    (events (snd (refreshRequestForwardingConnection ext c ctx clusterAddr))))"
  shows "fst (refreshRequestForwardingConnection ext c ctx clusterAddr) = Some err \<and>
         rpcClientConn (snd (refreshRequestForwardingConnection ext c ctx clusterAddr)) = None \<and>
         rpcClientConnCancelFunc (snd (refreshRequestForwardingConnection ext c ctx clusterAddr)) = None \<and>
         rpcClientConnContext (snd (refreshRequestForwardingConnection ext c ctx clusterAddr)) = None \<and>
         rpcForwardingClient (snd (refreshRequestForwardingConnection ext c ctx clusterAddr)) = None \<and>
         CancelCalled (CancelFunc (WithCancel ctx)) \<in>
           set (drop (length (events c))
                  (events (snd (refreshRequestForwardingConnection ext c ctx clusterAddr)))) \<and>
         map_option (\<lambda>l. clients l (RequestForwardingALPN ext))
           (clusterListener (snd (refreshRequestForwardingConnection ext c ctx clusterAddr))) =
           Some (Some requestForwardingClusterClient)"
proof -
  from assms have "Dialed host (Inl err) \<in> set (connect_events ext c ctx clusterAddr)"
    by (simp add: events_refresh events_refresh_after_clear Dialed_not_in_clear_events)
  then obtain clusterURL parsedCert l where
    "clusterAddr \<noteq> []" "url_Parse ext clusterAddr = Inr clusterURL"
    "localClusterParsedCert c = Some parsedCert" "clusterListener c = Some l"
    "grpc_DialContext ext (WithCancel ctx) (Host clusterURL) = Inl err"
    using Dialed_failure_in_connect_events by blast
  then show ?thesis
    by (simp add: refresh_dial_failed refresh_after_clear_fields events_refresh_after_clear
        AddClient_def)
qed

text \<open>A standby whose leader is advertised at the address with a zone.\<close>

lemma refresh_zoned_standby:
  "refreshRequestForwardingConnection zoned_leader standby_core (Background 2)
     ''https://[fe80::1%25eth0]:8201'' =
     (Some (Error ''invalid URL escape''),
      (refresh_after_clear zoned_leader standby_core)
        \<lparr>clusterListener :=
           Some (AddClient ''req_fw_sb-act_v1'' requestForwardingClusterClient
                   (RemoveClient ''req_fw_sb-act_v1'' \<lparr>clients = Map.empty\<rparr>)),
         events := events (refresh_after_clear zoned_leader standby_core) @
           [ClientAdded ''req_fw_sb-act_v1'',
            Dialed ''[fe80::1%eth0]:8201'' (Inl (Error ''invalid URL escape'')),
            CancelCalled (CancelFunc (WithCancel (Background 2))),
            LogError ''err setting up forwarding rpc client'',
            Unlock,
            LogDebug ''done refreshing forwarding connection'']\<rparr>)"
proof -
  have "refreshRequestForwardingConnection zoned_leader standby_core (Background 2)
          ''https://[fe80::1%25eth0]:8201'' =
        (Some (Error ''invalid URL escape''),
         (refresh_after_clear zoned_leader standby_core)
           \<lparr>clusterListener :=
              Some (AddClient (RequestForwardingALPN zoned_leader) requestForwardingClusterClient
                      (RemoveClient (RequestForwardingALPN zoned_leader) \<lparr>clients = Map.empty\<rparr>)),
            events := events (refresh_after_clear zoned_leader standby_core) @
              [ClientAdded (RequestForwardingALPN zoned_leader),
               Dialed (Host zoned_url) (Inl (Error ''invalid URL escape'')),
               CancelCalled (CancelFunc (WithCancel (Background 2))),
               LogError ''err setting up forwarding rpc client'',
               Unlock,
               LogDebug ''done refreshing forwarding connection'']\<rparr>)"
    by (rule refresh_dial_failed [where parsedCert = cluster_cert])
      (simp_all add: zoned_leader_def zoned_url_def reachable_def standby_core_def)
  then show ?thesis
    by (simp add: zoned_leader_def reachable_def zoned_url_def)
qed

theorem refresh_dial_failure_witness:
  "Dialed ''[fe80::1%eth0]:8201'' (Inl (Error ''invalid URL escape'')) \<in>
     set (drop (length (events standby_core))
            (events (snd (refreshRequestForwardingConnection zoned_leader standby_core
                            (Background 2) ''https://[fe80::1%25eth0]:8201'')))) \<and>
   fst (refreshRequestForwardingConnection zoned_leader standby_core (Background 2)
          ''https://[fe80::1%25eth0]:8201'') = Some (Error ''invalid URL escape'') \<and>
   rpcClientConn (snd (refreshRequestForwardingConnection zoned_leader standby_core
                         (Background 2) ''https://[fe80::1%25eth0]:8201'')) = None \<and>
   rpcForwardingClient (snd (refreshRequestForwardingConnection zoned_leader standby_core
                         (Background 2) ''https://[fe80::1%25eth0]:8201'')) = None \<and>
   map_option (\<lambda>l. clients l (RequestForwardingALPN zoned_leader))
     (clusterListener (snd (refreshRequestForwardingConnection zoned_leader standby_core
                              (Background 2) ''https://[fe80::1%25eth0]:8201''))) =
     Some (Some requestForwardingClusterClient)"
proof -
  have dialed: "Dialed ''[fe80::1%eth0]:8201'' (Inl (Error ''invalid URL escape'')) \<in>
     set (drop (length (events standby_core))
            (events (snd (refreshRequestForwardingConnection zoned_leader standby_core
                            (Background 2) ''https://[fe80::1%25eth0]:8201''))))"
    by (simp only: refresh_zoned_standby snd_conv) (simp add: standby_core_def)
  from dialed refresh_dial_failure [OF dialed] show ?thesis
    by blast
qed

text \<open>After that call the node is not without forwarding connection state: the listener
  has a client registered under the forwarding tag.\<close>

theorem refresh_dial_failure_counterexample:
  "Dialed ''[fe80::1%eth0]:8201'' (Inl (Error ''invalid URL escape'')) \<in>
     set (events (snd (refreshRequestForwardingConnection zoned_leader standby_core
                         (Background 2) ''https://[fe80::1%25eth0]:8201''))) \<and>
   \<not> cleared zoned_leader
       (snd (refreshRequestForwardingConnection zoned_leader standby_core
               (Background 2) ''https://[fe80::1%25eth0]:8201''))"
  by (simp only: refresh_zoned_standby snd_conv)
    (simp add: cleared_def AddClient_def zoned_leader_def reachable_def)

end
